theory Spec2Isabelle
  imports Main
begin

section \<open>Data model of the whiteboard store\<close>

text \<open>
  The development embeds \<^verbatim>\<open>web/flat-web/src/stores/whiteboard-store.ts\<close>. The class
  \<^verbatim>\<open>WhiteboardStore\<close> becomes the record \<open>store\<close>; its methods become functions that
  take the store and return the updated store together with the list of calls made on the
  external collaborators (the whiteboard SDK, the window manager, the courseware
  preloader, the console). What an external asynchronous call answers is an argument of
  the model (\<open>outcome\<close>). The two ratio fields are floating point constants and the
  \<^verbatim>\<open>getRoomType\<close> callback only selects between them; they are left out.
\<close>

datatype room_phase = Connecting | Connected | Reconnecting | Disconnecting | Disconnected

datatype view_mode = Freedom | Follower | Broadcaster

datatype view_vision_mode = Writable | Followable | Listener

datatype device_type = Desktop | Touch | Surface

datatype error = Error string | Failure string | TypeError

datatype 'a outcome = Resolves 'a | Rejects error

record ppt_description =
  src :: string
  width :: int
  height :: int

record scene_definition =
  name :: "string option"
  ppt :: "ppt_description option"

record window_manager =
  broadcaster :: "int option"
  mainView_mode :: view_vision_mode

text \<open>The fields of the SDK's \<^verbatim>\<open>Room\<close> object that the store reads or assigns.\<close>

record room =
  disableDeviceInputs :: bool
  disableSerialization :: bool
  broadcastState_mode :: "view_mode option"
  sceneState_index :: int
  sceneState_scenes :: "scene_definition list"
  sceneState_scenePath :: string
  invisiblePlugin :: "window_manager option"

datatype app_kind = Slide | DocsViewer | MediaPlayer

record add_app_params =
  kind :: app_kind
  options_scenePath :: "string option"
  options_title :: string
  options_scenes :: "scene_definition list option"
  attributes_taskId :: "string option"
  attributes_url :: "string option"
  attributes_src :: "string option"

record join_room_params =
  uuid :: string
  roomToken :: string
  region :: "string option"
  userPayload_userId :: string
  userPayload_cursorName :: "string option"
  join_isWritable :: bool

datatype effect =
    RoomSetWritable bool
  | RoomPutScenes string "scene_definition list" int
  | RoomCallbacksOff
  | WmSetViewMode view_mode
  | WmSwitchMainViewToWriter
  | WmSetMainViewSceneIndex int
  | WmAddApp add_app_params
  | WmDestroy
  | NewWhiteWebSdk device_type
  | NewCursorTool
  | SdkJoinRoom join_room_params
  | CursorSetRoom
  | PreloaderPreload string
  | ConsoleLog error
  | ConsoleError error
  | ConsoleLogUnloaded "string option"
  | SetDebugGlobals bool

text \<open>
  \<^verbatim>\<open>preloadPPTResource\<close> is a lodash \<^verbatim>\<open>debounce\<close> of the preloader with a wait of 2000 ms.
  Its closure state is the field \<open>preloadPPTResource\<close>: the argument of the latest call and
  the time at which the trailing invocation is due, or \<open>None\<close> when nothing is scheduled.
\<close>

record store =
  room :: "room option"
  phase :: room_phase
  viewMode :: "view_mode option"
  windowManager :: "window_manager option"
  isBroadcasterMode :: "int option"
  isWritable :: bool
  isShowPreviewPanel :: bool
  isFileOpen :: bool
  isKicked :: bool
  isFocusWindow :: bool
  isWindowMaximization :: bool
  isRightSideClose :: bool
  currentSceneIndex :: int
  scenesCount :: int
  isCreator :: bool
  preloadPPTResource :: "(string \<times> nat) option"

definition constructor :: "bool \<Rightarrow> store" where
  "constructor config_isCreator =
     \<lparr> room = None, phase = Connecting, viewMode = None, windowManager = None,
       isBroadcasterMode = None, isWritable = config_isCreator,
       isShowPreviewPanel = False, isFileOpen = False, isKicked = False,
       isFocusWindow = False, isWindowMaximization = False, isRightSideClose = False,
       currentSceneIndex = 0, scenesCount = 0, isCreator = config_isCreator,
       preloadPPTResource = None \<rparr>"

section \<open>Plain mutators\<close>

definition updateRoom :: "room \<Rightarrow> store \<Rightarrow> store" where
  "updateRoom r s = s\<lparr>room := Some r\<rparr>"

definition updatePhase :: "room_phase \<Rightarrow> store \<Rightarrow> store" where
  "updatePhase p s = s\<lparr>phase := p\<rparr>"

definition updateViewMode :: "view_mode \<Rightarrow> store \<Rightarrow> store" where
  "updateViewMode m s = s\<lparr>viewMode := Some m\<rparr>"

text \<open>
  The only caller passes the result of \<^verbatim>\<open>getInvisiblePlugin\<close> through a cast, which is null
  when the session carries no such plugin; hence the optional argument.
\<close>

definition updateWindowManager :: "window_manager option \<Rightarrow> store \<Rightarrow> store" where
  "updateWindowManager wm s = s\<lparr>windowManager := wm\<rparr>"

definition updateCurrentSceneIndex :: "int \<Rightarrow> store \<Rightarrow> store" where
  "updateCurrentSceneIndex i s = s\<lparr>currentSceneIndex := i\<rparr>"

definition updateScenesCount :: "int \<Rightarrow> store \<Rightarrow> store" where
  "updateScenesCount n s = s\<lparr>scenesCount := n\<rparr>"

definition updateBroadcasterMode :: "int option \<Rightarrow> store \<Rightarrow> store" where
  "updateBroadcasterMode b s = s\<lparr>isBroadcasterMode := b\<rparr>"

definition updateWindowMaximization :: "bool \<Rightarrow> store \<Rightarrow> store" where
  "updateWindowMaximization isMaximization s = s\<lparr>isWindowMaximization := isMaximization\<rparr>"

definition updateFocusWindow :: "bool \<Rightarrow> store \<Rightarrow> store" where
  "updateFocusWindow isFocus s = s\<lparr>isFocusWindow := isFocus\<rparr>"

definition setFileOpen :: "bool \<Rightarrow> store \<Rightarrow> store" where
  "setFileOpen open s = s\<lparr>isFileOpen := open\<rparr>"

definition toggleFileOpen :: "store \<Rightarrow> store" where
  "toggleFileOpen s = s\<lparr>isFileOpen := \<not> isFileOpen s\<rparr>"

definition showPreviewPanel :: "store \<Rightarrow> store" where
  "showPreviewPanel s = s\<lparr>isShowPreviewPanel := True\<rparr>"

definition setPreviewPanel :: "bool \<Rightarrow> store \<Rightarrow> store" where
  "setPreviewPanel show s = s\<lparr>isShowPreviewPanel := show\<rparr>"

definition setRightSideClose :: "bool \<Rightarrow> store \<Rightarrow> store" where
  "setRightSideClose close s = s\<lparr>isRightSideClose := close\<rparr>"

text \<open>
  \<^verbatim>\<open>toggleMainViewVisionMode\<close> reads \<^verbatim>\<open>broadcaster\<close> back from the window manager after the
  call; \<open>broadcaster_after\<close> is the value it finds there.
\<close>

definition toggleMainViewVisionMode :: "view_mode \<Rightarrow> int option \<Rightarrow> store \<Rightarrow> store \<times> effect list" where
  "toggleMainViewVisionMode mode broadcaster_after s =
     (case windowManager s of
        None \<Rightarrow> (updateBroadcasterMode None s, [])
      | Some wm \<Rightarrow> (updateBroadcasterMode broadcaster_after s, [WmSetViewMode mode]))"

definition switchMainViewToWriter :: "unit outcome \<Rightarrow> store \<Rightarrow> (error + unit) \<times> store \<times> effect list" where
  "switchMainViewToWriter answer s =
     (if windowManager s \<noteq> None \<and> isFocusWindow s
      then (case answer of
              Resolves u \<Rightarrow> (Inr (), s, [WmSwitchMainViewToWriter])
            | Rejects err \<Rightarrow> (Inl err, s, [WmSwitchMainViewToWriter]))
      else (Inr (), s, []))"

section \<open>The write gate: \<^verbatim>\<open>updateWritable\<close>\<close>

text \<open>
  \<^verbatim>\<open>updateWritable\<close> is an async function with one \<^verbatim>\<open>await\<close>. \<open>updateWritable_call\<close> is the
  part that runs synchronously when the function is called: it stores the new value and
  returns the request sent to the session engine, if one is sent. \<open>updateWritable_resume\<close>
  is the continuation that runs when the engine's promise resolves; it assigns to
  \<^verbatim>\<open>this.room\<close> as read at that moment, which throws a TypeError on null.
\<close>

definition updateWritable_call :: "bool \<Rightarrow> store \<Rightarrow> store \<times> bool option" where
  "updateWritable_call w s =
     (let oldWritable = isWritable s;
          s' = s\<lparr>isWritable := w\<rparr>
      in if oldWritable \<noteq> w \<and> room s' \<noteq> None then (s', Some w) else (s', None))"

definition updateWritable_resume :: "bool \<Rightarrow> store \<Rightarrow> error + store" where
  "updateWritable_resume w s =
     (case room s of
        None \<Rightarrow> Inl TypeError
      | Some r \<Rightarrow>
          let r1 = r\<lparr>disableDeviceInputs := \<not> w\<rparr>;
              r2 = (if w then r1\<lparr>disableSerialization := False\<rparr> else r1)
          in Inr (s\<lparr>room := Some r2\<rparr>))"

text \<open>One call run to completion, the engine's answer being \<open>engine\<close>.\<close>

definition updateWritable :: "bool \<Rightarrow> unit outcome \<Rightarrow> store \<Rightarrow> (error + unit) \<times> store \<times> effect list" where
  "updateWritable w engine s =
     (case updateWritable_call w s of
        (s', None) \<Rightarrow> (Inr (), s', [])
      | (s', Some req) \<Rightarrow>
          (case engine of
             Rejects e \<Rightarrow> (Inl e, s', [RoomSetWritable req])
           | Resolves _ \<Rightarrow>
               (case updateWritable_resume req s' of
                  Inl e \<Rightarrow> (Inl e, s', [RoomSetWritable req])
                | Inr s'' \<Rightarrow> (Inr (), s'', [RoomSetWritable req]))))"

section \<open>Several calls in flight\<close>

text \<open>
  Nothing in the store orders two calls of \<^verbatim>\<open>updateWritable\<close>: a second call may run while
  the request of the first is still awaited. A \<open>gate\<close> is the store together with the
  arguments of the requests in flight, oldest first. \<open>Call w\<close> runs the synchronous part of
  a call, \<open>Resolve i\<close> lets the \<open>i\<close>-th request in flight resolve and runs its
  continuation, \<open>Reject i\<close> lets it fail, which runs nothing.
\<close>

datatype event = Call bool | Resolve nat | Reject nat

record gate =
  gate_store :: store
  inflight :: "bool list"

definition remove_nth :: "nat \<Rightarrow> 'a list \<Rightarrow> 'a list" where
  "remove_nth i xs = take i xs @ drop (Suc i) xs"

fun gate_step :: "gate \<Rightarrow> event \<Rightarrow> gate" where
  "gate_step g (Call w) =
     (case updateWritable_call w (gate_store g) of
        (s', None) \<Rightarrow> g\<lparr>gate_store := s'\<rparr>
      | (s', Some req) \<Rightarrow> \<lparr>gate_store = s', inflight = inflight g @ [req]\<rparr>)"
| "gate_step g (Resolve i) =
     (if i < length (inflight g)
      then (case updateWritable_resume (inflight g ! i) (gate_store g) of
              Inl e \<Rightarrow> g\<lparr>inflight := remove_nth i (inflight g)\<rparr>
            | Inr s' \<Rightarrow> \<lparr>gate_store = s', inflight = remove_nth i (inflight g)\<rparr>)
      else g)"
| "gate_step g (Reject i) =
     (if i < length (inflight g) then g\<lparr>inflight := remove_nth i (inflight g)\<rparr> else g)"

definition gate_run :: "gate \<Rightarrow> event list \<Rightarrow> gate" where
  "gate_run g evs = foldl gate_step g evs"

text \<open>The argument of the last call of a schedule, if it has one.\<close>

fun last_call :: "event list \<Rightarrow> bool option" where
  "last_call [] = None"
| "last_call (Call w # evs) = (case last_call evs of None \<Rightarrow> Some w | Some v \<Rightarrow> Some v)"
| "last_call (_ # evs) = last_call evs"

text \<open>A schedule is in issue order when every request settles by resolving, oldest first.\<close>

fun in_issue_order :: "event list \<Rightarrow> bool" where
  "in_issue_order [] = True"
| "in_issue_order (Call w # evs) = in_issue_order evs"
| "in_issue_order (Resolve i # evs) = (i = 0 \<and> in_issue_order evs)"
| "in_issue_order (Reject i # evs) = False"

text \<open>
  The session's flags agree with the stored value: device input is disabled exactly when
  the store is not writable, and serialization is enabled when it is writable.
\<close>

definition flags_agree :: "store \<Rightarrow> bool" where
  "flags_agree s =
     (case room s of
        None \<Rightarrow> False
      | Some r \<Rightarrow> disableDeviceInputs r = (\<not> isWritable s) \<and>
                  (if isWritable s then \<not> disableSerialization r else True))"

text \<open>
  What an in-order schedule keeps true, relative to the store \<open>s0\<close> it started from: a
  session is attached; while requests are in flight the newest of them carries the stored
  value; and when none is in flight, either the flags agree with the stored value or no
  request has changed anything yet.
\<close>

definition gate_inv :: "store \<Rightarrow> gate \<Rightarrow> bool" where
  "gate_inv s0 g =
     (room (gate_store g) \<noteq> None \<and>
      (if inflight g = []
       then flags_agree (gate_store g) \<or>
            (isWritable (gate_store g) = isWritable s0 \<and> room (gate_store g) = room s0)
       else last (inflight g) = isWritable (gate_store g)))"

section \<open>Scene navigation\<close>







section \<open>The content gateway\<close>

subsection \<open>The pattern \<^verbatim>\<open>pptSrcRE\<close>\<close>

text \<open>
  A \<open>char\<close> stands for one UTF-16 code unit below 256, so the strings of the model are the
  JavaScript strings over that range. \<open>is_space\<close> is the class \<^verbatim>\<open>\s\<close> there (tab, line
  feed, vertical tab, form feed, carriage return, space, no-break space) and \<open>is_word\<close>
  is \<^verbatim>\<open>\w\<close>.
\<close>

definition is_space :: "char \<Rightarrow> bool" where
  "is_space c = (let n = (of_char c :: nat) in (9 \<le> n \<and> n \<le> 13) \<or> n = 32 \<or> n = 160)"

definition is_word :: "char \<Rightarrow> bool" where
  "is_word c =
     (let n = (of_char c :: nat)
      in (48 \<le> n \<and> n \<le> 57) \<or> (65 \<le> n \<and> n \<le> 90) \<or> n = 95 \<or> (97 \<le> n \<and> n \<le> 122))"

fun strip_prefix :: "string \<Rightarrow> string \<Rightarrow> string option" where
  "strip_prefix [] s = Some s"
| "strip_prefix (p # ps) [] = None"
| "strip_prefix (p # ps) (c # cs) = (if p = c then strip_prefix ps cs else None)"

definition startsWith :: "string \<Rightarrow> string \<Rightarrow> bool" where
  "startsWith s p = (strip_prefix p s \<noteq> None)"

record re_groups =
  group_prefix :: string
  group_taskId :: string

text \<open>
  The pattern is
  \<^verbatim>\<open>/^pptx?(?<prefix>:\/\/\S+?dynamicConvert)\/(?<taskId>\w+)\//\<close>.
  \<open>re_tail\<close> matches what follows the lazy \<^verbatim>\<open>\S+?\<close>: the literal \<^verbatim>\<open>dynamicConvert/\<close>, then
  \<^verbatim>\<open>\w+\<close>, then a slash. The greedy \<^verbatim>\<open>\w+\<close> can only stop at the end of the run of word
  characters, since a slash is not one, so the group is the whole run.
\<close>

definition re_tail :: "string \<Rightarrow> string option" where
  "re_tail s =
     (case strip_prefix ''dynamicConvert/'' s of
        None \<Rightarrow> None
      | Some r \<Rightarrow>
          let w = takeWhile is_word r
          in if w \<noteq> [] \<and> startsWith (dropWhile is_word r) ''/'' then Some w else None)"

text \<open>
  \<open>re_lazy acc s\<close> is the lazy \<^verbatim>\<open>\S+?\<close> after it has taken the characters \<open>acc\<close>: it tries
  the rest of the pattern first and takes one more non-space character only when that
  fails.
\<close>

fun re_lazy :: "string \<Rightarrow> string \<Rightarrow> (string \<times> string) option" where
  "re_lazy acc [] = (case re_tail [] of Some w \<Rightarrow> Some (acc, w) | None \<Rightarrow> None)"
| "re_lazy acc (c # cs) =
     (case re_tail (c # cs) of
        Some w \<Rightarrow> Some (acc, w)
      | None \<Rightarrow> if is_space c then None else re_lazy (acc @ [c]) cs)"

definition re_after_scheme :: "string \<Rightarrow> re_groups option" where
  "re_after_scheme s =
     (case strip_prefix ''://'' s of
        None \<Rightarrow> None
      | Some [] \<Rightarrow> None
      | Some (c # cs) \<Rightarrow>
          if is_space c then None
          else (case re_lazy [c] cs of
                  None \<Rightarrow> None
                | Some (acc, w) \<Rightarrow>
                    Some \<lparr>group_prefix = ''://'' @ acc @ ''dynamicConvert'', group_taskId = w\<rparr>))"

text \<open>The greedy \<^verbatim>\<open>x?\<close> is tried with the \<^verbatim>\<open>x\<close> first and without it when that fails.\<close>

definition pptSrcRE_exec :: "string \<Rightarrow> re_groups option" where
  "pptSrcRE_exec s =
     (case strip_prefix ''ppt'' s of
        None \<Rightarrow> None
      | Some r0 \<Rightarrow>
          (case strip_prefix ''x'' r0 of
             None \<Rightarrow> re_after_scheme r0
           | Some r1 \<Rightarrow>
               (case re_after_scheme r1 of
                  Some g \<Rightarrow> Some g
                | None \<Rightarrow> re_after_scheme r0)))"

subsection \<open>\<^verbatim>\<open>makeSlideParams\<close>\<close>

record slide_params =
  scenesWithoutPPT :: "scene_definition list"
  taskId :: string
  url :: string

text \<open>
  The loop of \<^verbatim>\<open>makeSlideParams\<close>; \<open>acc\<close> is \<^verbatim>\<open>scenesWithoutPPT\<close> so far. The \<^verbatim>\<open>break\<close> leaves
  the loop after the first scene whose source matches.
\<close>

fun makeSlideParams_loop :: "scene_definition list \<Rightarrow> scene_definition list \<Rightarrow> slide_params" where
  "makeSlideParams_loop acc [] = \<lparr>scenesWithoutPPT = acc, taskId = [], url = []\<rparr>"
| "makeSlideParams_loop acc (sc # rest) =
     (let acc' = acc @ [\<lparr>name = name sc, ppt = None\<rparr>]
      in case ppt sc of
           None \<Rightarrow> makeSlideParams_loop acc' rest
         | Some p \<Rightarrow>
             if \<not> startsWith (src p) ''ppt'' then makeSlideParams_loop acc' rest
             else (case pptSrcRE_exec (src p) of
                     None \<Rightarrow> makeSlideParams_loop acc' rest
                   | Some g \<Rightarrow>
                       \<lparr>scenesWithoutPPT = acc', taskId = group_taskId g,
                        url = ''https'' @ group_prefix g\<rparr>))"

definition makeSlideParams :: "scene_definition list \<Rightarrow> slide_params" where
  "makeSlideParams scenes = makeSlideParams_loop [] scenes"

text \<open>A scene whose source the pattern matches, and a scene reduced to its name.\<close>

definition scene_matches :: "scene_definition \<Rightarrow> bool" where
  "scene_matches sc = (case ppt sc of None \<Rightarrow> False | Some p \<Rightarrow> pptSrcRE_exec (src p) \<noteq> None)"

definition without_ppt :: "scene_definition \<Rightarrow> scene_definition" where
  "without_ppt sc = \<lparr>name = name sc, ppt = None\<rparr>"

subsection \<open>Opening documents and media\<close>

text \<open>The argument of \<^verbatim>\<open>addApp\<close> that \<^verbatim>\<open>openDocsFileInWindowManager\<close> builds.\<close>

definition docsAppParams :: "string \<Rightarrow> string \<Rightarrow> scene_definition list \<Rightarrow> add_app_params" where
  "docsAppParams scenePath title scenes =
     (let p = makeSlideParams scenes
      in if taskId p \<noteq> [] \<and> url p \<noteq> []
         then \<lparr>kind = Slide, options_scenePath = Some scenePath, options_title = title,
               options_scenes = Some (scenesWithoutPPT p),
               attributes_taskId = Some (taskId p), attributes_url = Some (url p),
               attributes_src = None\<rparr>
         else \<lparr>kind = DocsViewer, options_scenePath = Some scenePath, options_title = title,
               options_scenes = Some scenes,
               attributes_taskId = None, attributes_url = None, attributes_src = None\<rparr>)"

text \<open>
  \<open>answer\<close> is what the window manager's \<^verbatim>\<open>addApp\<close> does with the request: it resolves, or
  it throws or rejects with an error, which the \<^verbatim>\<open>catch\<close> logs.
\<close>

definition openDocsFileInWindowManager ::
  "string \<Rightarrow> string \<Rightarrow> scene_definition list \<Rightarrow> unit outcome \<Rightarrow> store \<Rightarrow> (error + unit) \<times> store \<times> effect list" where
  "openDocsFileInWindowManager scenePath title scenes answer s =
     (case windowManager s of
        None \<Rightarrow> (Inr (), s, [])
      | Some wm \<Rightarrow>
          (case answer of
             Resolves _ \<Rightarrow> (Inr (), s, [WmAddApp (docsAppParams scenePath title scenes)])
           | Rejects err \<Rightarrow>
               (Inr (), s, [WmAddApp (docsAppParams scenePath title scenes), ConsoleLog err])))"

definition mediaAppParams :: "string \<Rightarrow> string \<Rightarrow> add_app_params" where
  "mediaAppParams resourceSrc title =
     \<lparr>kind = MediaPlayer, options_scenePath = None, options_title = title,
      options_scenes = None, attributes_taskId = None, attributes_url = None,
      attributes_src = Some resourceSrc\<rparr>"

definition openMediaFileInWindowManager ::
  "string \<Rightarrow> string \<Rightarrow> unit outcome \<Rightarrow> store \<Rightarrow> (error + unit) \<times> store \<times> effect list" where
  "openMediaFileInWindowManager resourceSrc title answer s =
     (case windowManager s of
        None \<Rightarrow> (Inr (), s, [])
      | Some wm \<Rightarrow>
          (case answer of
             Resolves _ \<Rightarrow> (Inr (), s, [WmAddApp (mediaAppParams resourceSrc title)])
           | Rejects err \<Rightarrow>
               (Inr (), s, [WmAddApp (mediaAppParams resourceSrc title), ConsoleLog err])))"

text \<open>\<^verbatim>\<open>addApp\<close> has no \<^verbatim>\<open>try\<close>: a failure of the window manager reaches the caller.\<close>

definition addApp :: "add_app_params \<Rightarrow> unit outcome \<Rightarrow> store \<Rightarrow> (error + unit) \<times> store \<times> effect list" where
  "addApp config answer s =
     (case windowManager s of
        None \<Rightarrow> (Inr (), s, [])
      | Some wm \<Rightarrow>
          (case answer of
             Resolves _ \<Rightarrow> (Inr (), s, [WmAddApp config])
           | Rejects err \<Rightarrow> (Inl err, s, [WmAddApp config])))"

section \<open>The debounced preload\<close>

text \<open>
  Modelled from the spec: lodash's \<^verbatim>\<open>debounce\<close>, which \<^verbatim>\<open>preloadPPTResource\<close> wraps the
  preloader in, is not part of the sources. The spec describes it as a pending-call slot
  that holds the latest argument and a scheduled callback: a new call replaces the slot
  and reschedules, cancel clears the slot and unschedules. Time is a number of
  milliseconds; \<open>debounce_wait\<close> is the wait written in the source.
\<close>

definition debounce_wait :: nat where
  "debounce_wait = 2000"

text \<open>
  Modelled from the spec: a call of the debounced function at time \<open>now\<close> replaces the
  slot and schedules the invocation one wait later.
\<close>

definition preloadPPTResource_call :: "string \<Rightarrow> nat \<Rightarrow> store \<Rightarrow> store" where
  "preloadPPTResource_call pptSrc now s = s\<lparr>preloadPPTResource := Some (pptSrc, now + debounce_wait)\<rparr>"

text \<open>Modelled from the spec: cancel clears the slot and unschedules.\<close>

definition preloadPPTResource_cancel :: "store \<Rightarrow> store" where
  "preloadPPTResource_cancel s = s\<lparr>preloadPPTResource := None\<rparr>"

text \<open>
  Modelled from the spec: when the clock reaches \<open>now\<close>, a scheduled invocation that is due
  runs the wrapped function, \<^verbatim>\<open>coursewarePreloader.preload\<close>, on the slot's argument and
  empties the slot.
\<close>

definition preloadPPTResource_elapse :: "nat \<Rightarrow> store \<Rightarrow> store \<times> effect list" where
  "preloadPPTResource_elapse now s =
     (case preloadPPTResource s of
        None \<Rightarrow> (s, [])
      | Some (pptSrc, due) \<Rightarrow>
          if due \<le> now then (s\<lparr>preloadPPTResource := None\<rparr>, [PreloaderPreload pptSrc])
          else (s, []))"

text \<open>
  A history of the debounced function: calls, cancels and the passing of time, each at a
  time of the clock. An invocation that is due runs before anything else that happens at
  that time. \<open>preload_run\<close> returns the store and the preloads executed, in order.
\<close>

datatype preload_event = PreloadAt string nat | CancelAt nat | ClockAt nat

fun preload_step :: "store \<times> effect list \<Rightarrow> preload_event \<Rightarrow> store \<times> effect list" where
  "preload_step (s, done) (PreloadAt pptSrc now) =
     (let (s1, e1) = preloadPPTResource_elapse now s
      in (preloadPPTResource_call pptSrc now s1, done @ e1))"
| "preload_step (s, done) (CancelAt now) =
     (let (s1, e1) = preloadPPTResource_elapse now s
      in (preloadPPTResource_cancel s1, done @ e1))"
| "preload_step (s, done) (ClockAt now) =
     (let (s1, e1) = preloadPPTResource_elapse now s in (s1, done @ e1))"

definition preload_run :: "store \<Rightarrow> preload_event list \<Rightarrow> store \<times> effect list" where
  "preload_run s evs = foldl preload_step (s, []) evs"

text \<open>No invocation scheduled in \<open>s\<close> is due at time \<open>now\<close> or before.\<close>

definition nothing_due :: "nat \<Rightarrow> store \<Rightarrow> bool" where
  "nothing_due now s = (case preloadPPTResource s of None \<Rightarrow> True | Some (pptSrc, due) \<Rightarrow> now < due)"

section \<open>The session connector\<close>

record globalStore =
  userUUID :: "string option"
  whiteboardRoomUUID :: "string option"
  whiteboardRoomToken :: "string option"
  globalStore_region :: "string option"
  userInfo_name :: "string option"

record environment =
  NODE_ENV :: string
  isWindows :: bool
  isMobile :: bool

text \<open>\<^verbatim>\<open>!x\<close> on an optional string: true for null, undefined and the empty string.\<close>

definition falsy :: "string option \<Rightarrow> bool" where
  "falsy x = (case x of None \<Rightarrow> True | Some v \<Rightarrow> v = [])"

text \<open>The string behind an optional string that has passed the check \<^verbatim>\<open>!x\<close>.\<close>

definition narrowed :: "string option \<Rightarrow> string" where
  "narrowed x = (case x of None \<Rightarrow> [] | Some v \<Rightarrow> v)"

subsection \<open>The callbacks registered with the session\<close>

definition onPhaseChanged :: "room_phase \<Rightarrow> store \<Rightarrow> store" where
  "onPhaseChanged p s = updatePhase p s"

record modify_state =
  modify_broadcastState :: "view_mode option"
  modify_sceneState_scenes :: "scene_definition list option"

text \<open>\<^verbatim>\<open>modifyState.sceneState?.scenes[0]?.ppt?.src\<close>\<close>

definition first_pptSrc :: "modify_state \<Rightarrow> string option" where
  "first_pptSrc m =
     (case modify_sceneState_scenes m of
        None \<Rightarrow> None
      | Some [] \<Rightarrow> None
      | Some (sc # rest) \<Rightarrow> (case ppt sc of None \<Rightarrow> None | Some p \<Rightarrow> Some (src p)))"

text \<open>
  The handler awaits what the debounced function returns, which is the result of the
  preloader's latest invocation; \<open>earlier\<close> is what that await gives, and a failure is
  logged. The handler is run to completion here, without another handler in between.
\<close>

definition onRoomStateChanged ::
  "modify_state \<Rightarrow> nat \<Rightarrow> unit outcome \<Rightarrow> store \<Rightarrow> store \<times> effect list" where
  "onRoomStateChanged m now earlier s =
     (let s1 = (case modify_broadcastState m of None \<Rightarrow> s | Some mode \<Rightarrow> updateViewMode mode s);
          preload = (case first_pptSrc m of None \<Rightarrow> False | Some pptSrc \<Rightarrow> pptSrc \<noteq> []);
          s2 = (if preload then preloadPPTResource_call (narrowed (first_pptSrc m)) now s1 else s1);
          logged = (if preload
                    then (case earlier of Resolves u \<Rightarrow> [] | Rejects err \<Rightarrow> [ConsoleLog err])
                    else []);
          s3 = (case room s2 of
                  None \<Rightarrow> s2
                | Some r \<Rightarrow>
                    (case windowManager s2 of
                       None \<Rightarrow> s2
                     | Some wm \<Rightarrow>
                         if mainView_mode wm = Writable
                         then updateScenesCount (int (length (sceneState_scenes r)))
                                (updateCurrentSceneIndex (sceneState_index r) s2)
                         else s2))
      in (s3, logged))"

text \<open>
  The listeners that \<^verbatim>\<open>onMainViewModeChange\<close> and \<^verbatim>\<open>onWindowManagerBoxStateChange\<close> register
  on the window manager's emitter.
\<close>

definition mainViewModeChange :: "view_vision_mode \<Rightarrow> store \<Rightarrow> store" where
  "mainViewModeChange mode s =
     (let isWindow = (mode \<noteq> Writable);
          s1 = updateFocusWindow isWindow s
      in case room s1 of
           None \<Rightarrow> s1
         | Some r \<Rightarrow>
             if \<not> isWindow
             then updateScenesCount (int (length (sceneState_scenes r)))
                    (updateCurrentSceneIndex (sceneState_index r) s1)
             else s1)"

definition boxStateChange :: "string \<Rightarrow> store \<Rightarrow> store" where
  "boxStateChange mode s = updateWindowMaximization (mode = ''maximized'') s"

definition onDisconnectWithError :: "error \<Rightarrow> store \<Rightarrow> store \<times> effect list" where
  "onDisconnectWithError err s = (preloadPPTResource_cancel s, [ConsoleError err])"

definition onKickedWithReason :: "string \<Rightarrow> store \<Rightarrow> store" where
  "onKickedWithReason reason s =
     (if reason = ''kickByAdmin'' \<or> reason = ''roomDelete'' \<or> reason = ''roomBan''
      then (if \<not> isCreator s then s\<lparr>isKicked := True\<rparr> else s)
      else s)"

subsection \<open>\<^verbatim>\<open>joinWhiteboardRoom\<close>\<close>

definition detect_deviceType :: "environment \<Rightarrow> device_type" where
  "detect_deviceType env =
     (if isWindows env then Surface else if isMobile env then Touch else Desktop)"

text \<open>What runs after \<^verbatim>\<open>joinRoom\<close> has resolved with the room \<open>r\<close>.\<close>

definition join_hydrate :: "environment \<Rightarrow> room \<Rightarrow> store \<Rightarrow> store \<times> effect list" where
  "join_hydrate env r s =
     (let r1 = r\<lparr>disableDeviceInputs := \<not> isWritable s\<rparr>;
          s1 = (case broadcastState_mode r1 of None \<Rightarrow> s | Some mode \<Rightarrow> updateViewMode mode s);
          s2 = updateRoom r1 s1;
          s3 = updateCurrentSceneIndex (sceneState_index r1) s2;
          s4 = updateScenesCount (int (length (sceneState_scenes r1))) s3;
          s5 = updateBroadcasterMode
                 (case windowManager s4 of None \<Rightarrow> None | Some wm \<Rightarrow> broadcaster wm) s4;
          s6 = updateWindowManager (invisiblePlugin r1) s5
      in (s6, CursorSetRoom #
              (if NODE_ENV env = ''development'' then [SetDebugGlobals True] else [])))"

definition joinWhiteboardRoom ::
  "globalStore \<Rightarrow> environment \<Rightarrow> room outcome \<Rightarrow> store \<Rightarrow> (error + unit) \<times> store \<times> effect list" where
  "joinWhiteboardRoom gs env answer s =
     (if falsy (userUUID gs) then (Inl (Error ''Missing userUUID''), s, [])
      else if falsy (whiteboardRoomUUID gs) \<or> falsy (whiteboardRoomToken gs)
      then (Inl (Error ''Missing Whiteboard UUID and Token''), s, [])
      else
        let request =
              [NewWhiteWebSdk (detect_deviceType env), NewCursorTool,
               SdkJoinRoom \<lparr>uuid = narrowed (whiteboardRoomUUID gs),
                            roomToken = narrowed (whiteboardRoomToken gs),
                            region = globalStore_region gs,
                            userPayload_userId = narrowed (userUUID gs),
                            userPayload_cursorName = userInfo_name gs,
                            join_isWritable = isWritable s\<rparr>]
        in case answer of
             Rejects err \<Rightarrow> (Inl err, s, request)
           | Resolves r \<Rightarrow>
               (let (s', after) = join_hydrate env r s in (Inr (), s', request @ after)))"

subsection \<open>Teardown\<close>

definition destroyWindowManager :: "store \<Rightarrow> store \<times> effect list" where
  "destroyWindowManager s =
     (s\<lparr>windowManager := None\<rparr>, (case windowManager s of None \<Rightarrow> [] | Some wm \<Rightarrow> [WmDestroy]))"

definition destroy :: "globalStore \<Rightarrow> environment \<Rightarrow> store \<Rightarrow> store \<times> effect list" where
  "destroy gs env s =
     (let s1 = preloadPPTResource_cancel s;
          (s2, e2) = destroyWindowManager s1;
          e3 = (case room s2 of None \<Rightarrow> [] | Some r \<Rightarrow> [RoomCallbacksOff]);
          e4 = (if NODE_ENV env = ''development'' then [SetDebugGlobals False] else [])
      in (s2, e2 @ e3 @ e4 @ [ConsoleLogUnloaded (whiteboardRoomUUID gs)]))"

section \<open>A session used in the examples\<close>

definition example_manager :: window_manager where
  "example_manager = \<lparr>broadcaster = None, mainView_mode = Writable\<rparr>"

definition example_room :: room where
  "example_room =
     \<lparr>disableDeviceInputs = False, disableSerialization = True, broadcastState_mode = None,
      sceneState_index = 0,
      sceneState_scenes = [\<lparr>name = Some ''1'', ppt = None\<rparr>, \<lparr>name = Some ''2'', ppt = None\<rparr>],
      sceneState_scenePath = ''/init/1'',
      invisiblePlugin = Some example_manager\<rparr>"

definition example_globalStore :: globalStore where
  "example_globalStore =
     \<lparr>userUUID = Some ''user-1'', whiteboardRoomUUID = Some ''room-1'',
      whiteboardRoomToken = Some ''token-1'', globalStore_region = None,
      userInfo_name = Some ''Ada''\<rparr>"

definition example_environment :: environment where
  "example_environment = \<lparr>NODE_ENV = ''production'', isWindows = False, isMobile = False\<rparr>"

text \<open>The store of a participant who has joined \<open>example_room\<close>, as creator or not.\<close>

definition example_joined :: "bool \<Rightarrow> store" where
  "example_joined creator =
     fst (snd (joinWhiteboardRoom example_globalStore example_environment
                 (Resolves example_room) (constructor creator)))"

section \<open>Auxiliary facts\<close>

lemma example_joined_eq:
  "example_joined c =
     \<lparr>room = Some (example_room\<lparr>disableDeviceInputs := \<not> c\<rparr>), phase = Connecting, viewMode = None,
      windowManager = Some example_manager, isBroadcasterMode = None, isWritable = c,
      isShowPreviewPanel = False, isFileOpen = False, isKicked = False,
      isFocusWindow = False, isWindowMaximization = False, isRightSideClose = False,
      currentSceneIndex = 0, scenesCount = 2, isCreator = c, preloadPPTResource = None\<rparr>"
  by (simp add: example_joined_def joinWhiteboardRoom_def join_hydrate_def falsy_def
      example_globalStore_def example_environment_def example_room_def constructor_def
      updateRoom_def updateViewMode_def updateCurrentSceneIndex_def updateScenesCount_def
      updateBroadcasterMode_def updateWindowManager_def)

lemma gate_step_Call:
  "gate_step g (Call w) =
     \<lparr>gate_store = (gate_store g)\<lparr>isWritable := w\<rparr>,
      inflight = inflight g @
        (if isWritable (gate_store g) \<noteq> w \<and> room (gate_store g) \<noteq> None then [w] else [])\<rparr>"
  by (cases g) (simp add: updateWritable_call_def)

lemma gate_step_Resolve:
  "gate_step g (Resolve i) =
     (if i < length (inflight g)
      then \<lparr>gate_store =
              (case room (gate_store g) of
                 None \<Rightarrow> gate_store g
               | Some r \<Rightarrow>
                   (gate_store g)\<lparr>room := Some
                     (if inflight g ! i
                      then r\<lparr>disableDeviceInputs := False, disableSerialization := False\<rparr>
                      else r\<lparr>disableDeviceInputs := True\<rparr>)\<rparr>),
             inflight = remove_nth i (inflight g)\<rparr>
      else g)"
  by (cases g) (simp add: updateWritable_resume_def split: option.splits)

lemma gate_step_isWritable:
  "isWritable (gate_store (gate_step g ev)) =
     (case ev of Call w \<Rightarrow> w | Resolve i \<Rightarrow> isWritable (gate_store g) | Reject i \<Rightarrow> isWritable (gate_store g))"
  by (cases ev) (simp_all add: gate_step_Call gate_step_Resolve del: gate_step.simps(1,2) split: option.splits)

lemma gate_run_isWritable:
  "isWritable (gate_store (foldl gate_step g evs)) =
     (case last_call evs of None \<Rightarrow> isWritable (gate_store g) | Some w \<Rightarrow> w)"
proof (induction evs arbitrary: g)
  case Nil
  then show ?case by simp
next
  case (Cons ev evs)
  show ?case
    by (cases ev) (simp_all add: Cons.IH gate_step_isWritable del: gate_step.simps split: option.splits)
qed

lemma gate_resolve_sets_flags:
  assumes "i < length (inflight g)" and "room (gate_store g) = Some r"
  shows "room (gate_store (gate_step g (Resolve i))) =
           Some (if inflight g ! i
                 then r\<lparr>disableDeviceInputs := False, disableSerialization := False\<rparr>
                 else r\<lparr>disableDeviceInputs := True\<rparr>)"
  using assms by (simp add: gate_step_Resolve del: gate_step.simps)

lemma gate_inv_call:
  assumes "gate_inv s0 g"
  shows "gate_inv s0 (gate_step g (Call w))"
proof (cases "isWritable (gate_store g) = w")
  case True
  then have "gate_step g (Call w) = g"
    by (simp add: gate_step_Call del: gate_step.simps)
  with assms show ?thesis by simp
next
  case False
  with assms show ?thesis
    by (simp add: gate_inv_def gate_step_Call del: gate_step.simps)
qed

lemma gate_inv_resolve:
  assumes "gate_inv s0 g"
  shows "gate_inv s0 (gate_step g (Resolve 0))"
proof (cases "inflight g")
  case Nil
  then show ?thesis using assms by (simp add: gate_step_Resolve del: gate_step.simps)
next
  case (Cons w rest)
  from assms obtain r where r: "room (gate_store g) = Some r"
    by (auto simp: gate_inv_def)
  from assms Cons have lastw: "last (w # rest) = isWritable (gate_store g)"
    by (simp add: gate_inv_def)
  show ?thesis
  proof (cases rest)
    case Nil
    with Cons r lastw show ?thesis
      by (simp add: gate_inv_def gate_step_Resolve remove_nth_def flags_agree_def
          del: gate_step.simps)
  next
    case (Cons w' rest')
    with \<open>inflight g = w # rest\<close> r lastw show ?thesis
      by (simp add: gate_inv_def gate_step_Resolve remove_nth_def del: gate_step.simps)
  qed
qed

lemma gate_inv_run:
  assumes "gate_inv s0 g" and "in_issue_order evs"
  shows "gate_inv s0 (foldl gate_step g evs)"
  using assms
proof (induction evs arbitrary: g)
  case Nil
  then show ?case by simp
next
  case (Cons ev evs)
  show ?case
  proof (cases ev)
    case (Call w)
    with Cons.prems have "in_issue_order evs" by simp
    with Cons.IH [OF gate_inv_call [OF Cons.prems(1), of w]] Call show ?thesis
      by (simp del: gate_step.simps)
  next
    case (Resolve i)
    with Cons.prems have i: "i = 0" and rest: "in_issue_order evs" by simp_all
    with Cons.IH [OF gate_inv_resolve [OF Cons.prems(1)]] Resolve show ?thesis
      by (simp del: gate_step.simps)
  next
    case (Reject i)
    with Cons.prems show ?thesis by simp
  qed
qed

lemma gate_settled_agree:
  assumes "room (gate_store g) \<noteq> None" and "inflight g = []" and "in_issue_order evs"
    and "inflight (gate_run g evs) = []"
    and "flags_agree (gate_store g) \<or> isWritable (gate_store (gate_run g evs)) \<noteq> isWritable (gate_store g)"
  shows "flags_agree (gate_store (gate_run g evs))"
proof -
  have "gate_inv (gate_store g) g"
    using assms(1,2) by (simp add: gate_inv_def)
  then have "gate_inv (gate_store g) (gate_run g evs)"
    unfolding gate_run_def using assms(3) by (rule gate_inv_run)
  with assms(4) have
    "flags_agree (gate_store (gate_run g evs)) \<or>
     (isWritable (gate_store (gate_run g evs)) = isWritable (gate_store g) \<and>
      room (gate_store (gate_run g evs)) = room (gate_store g))"
    by (simp add: gate_inv_def)
  with assms(5) show ?thesis
    by (auto simp: flags_agree_def split: option.splits if_splits)
qed

lemma makeSlideParams_loop_skip:
  assumes "\<forall>sc\<in>set pre. \<not> scene_matches sc"
  shows "makeSlideParams_loop acc (pre @ rest) = makeSlideParams_loop (acc @ map without_ppt pre) rest"
  using assms
proof (induction pre arbitrary: acc)
  case Nil
  then show ?case by simp
next
  case (Cons sc pre)
  from Cons.prems have here: "\<not> scene_matches sc" and later: "\<forall>sc\<in>set pre. \<not> scene_matches sc"
    by simp_all
  from here have "makeSlideParams_loop acc ((sc # pre) @ rest) =
      makeSlideParams_loop (acc @ [without_ppt sc]) (pre @ rest)"
    by (simp add: scene_matches_def without_ppt_def Let_def split: option.splits)
  also have "\<dots> = makeSlideParams_loop ((acc @ [without_ppt sc]) @ map without_ppt pre) rest"
    using later by (rule Cons.IH)
  finally show ?case by simp
qed

lemma example_src_match:
  "pptSrcRE_exec ''pptx://cdn.example.com/prefix/dynamicConvert/TASK123/1.slide'' =
     Some \<lparr>group_prefix = ''://cdn.example.com/prefix/dynamicConvert'', group_taskId = ''TASK123''\<rparr>"
  by (simp add: pptSrcRE_exec_def re_after_scheme_def re_tail_def is_space_def is_word_def
      startsWith_def)

lemma example_src_startsWith:
  "startsWith ''pptx://cdn.example.com/prefix/dynamicConvert/TASK123/1.slide'' ''ppt''"
  by (simp add: startsWith_def)

lemma makeSlideParams_example:
  assumes "\<forall>sc\<in>set pre. \<not> scene_matches sc"
    and "ppt sc = Some p"
    and "src p = ''pptx://cdn.example.com/prefix/dynamicConvert/TASK123/1.slide''"
  shows "makeSlideParams (pre @ sc # post) =
           \<lparr>scenesWithoutPPT = map without_ppt (pre @ [sc]), taskId = ''TASK123'',
            url = ''https://cdn.example.com/prefix/dynamicConvert''\<rparr>"
proof -
  have "makeSlideParams (pre @ sc # post) = makeSlideParams_loop (map without_ppt pre) (sc # post)"
    unfolding makeSlideParams_def using makeSlideParams_loop_skip [OF assms(1), of "[]" "sc # post"]
    by simp
  also have "\<dots> = \<lparr>scenesWithoutPPT = map without_ppt (pre @ [sc]), taskId = ''TASK123'',
            url = ''https://cdn.example.com/prefix/dynamicConvert''\<rparr>"
    using assms(2,3) example_src_match example_src_startsWith
    by (simp add: without_ppt_def)
  finally show ?thesis .
qed

lemma makeSlideParams_no_match:
  assumes "\<forall>sc\<in>set scenes. \<not> scene_matches sc"
  shows "makeSlideParams scenes = \<lparr>scenesWithoutPPT = map without_ppt scenes, taskId = [], url = []\<rparr>"
  unfolding makeSlideParams_def using makeSlideParams_loop_skip [OF assms, of "[]" "[]"]
  by simp

section \<open>Teardown\<close>

text \<open>
  C1. The claim is that after \<^verbatim>\<open>destroy\<close>, whatever happened before, the session handle
  \<^verbatim>\<open>room\<close> is null, the window manager is null and no debounced preload is scheduled. The
  code clears the window manager and cancels the preload, but it only turns the session's
  callbacks off: \<^verbatim>\<open>room\<close> is never assigned, so it is what it was before. For every store,
  after \<^verbatim>\<open>destroy\<close> the window manager is null, no preload is scheduled, and \<^verbatim>\<open>room\<close> is
  unchanged.
\<close>

theorem destroy_clears_manager_and_preload:
  "windowManager (fst (destroy gs env s)) = None \<and>
   preloadPPTResource (fst (destroy gs env s)) = None \<and>
   room (fst (destroy gs env s)) = room s"
  by (simp add: destroy_def destroyWindowManager_def preloadPPTResource_cancel_def)

text \<open>A creator who has joined a room and then tears the store down still holds the room.\<close>

theorem destroy_room_counterexample:
  "room (fst (destroy example_globalStore example_environment (example_joined True))) \<noteq> None"
  by (simp add: destroy_def destroyWindowManager_def preloadPPTResource_cancel_def
      example_joined_eq)

section \<open>The write gate\<close>

text \<open>
  C2. The claim is that for every sequence of \<^verbatim>\<open>updateWritable\<close> calls, overlapping or not,
  the stored value ends as the argument of the last call, and that once a call's request
  has resolved the session's \<^verbatim>\<open>disableDeviceInputs\<close> is the negation of the stored value and
  serialization is enabled when the stored value is true. The first part holds for every
  schedule. The second holds in this form: the continuation of a resolved request sets
  \<^verbatim>\<open>disableDeviceInputs\<close> to the negation of that request's own argument and enables
  serialization when the argument is true; and when a session is attached, nothing is in
  flight at the start, every request resolves in the order issued, and nothing is in
  flight at the end, the flags agree with the stored value, provided they agreed at the
  start or the stored value has changed.
\<close>

theorem updateWritable_schedules:
  "(last_call evs = Some w \<longrightarrow> isWritable (gate_store (gate_run g evs)) = w) \<and>
   (i < length (inflight g) \<and> room (gate_store g) = Some r \<longrightarrow>
      room (gate_store (gate_step g (Resolve i))) =
        Some (if inflight g ! i
              then r\<lparr>disableDeviceInputs := False, disableSerialization := False\<rparr>
              else r\<lparr>disableDeviceInputs := True\<rparr>)) \<and>
   (room (gate_store g) \<noteq> None \<and> inflight g = [] \<and> in_issue_order evs \<and>
    inflight (gate_run g evs) = [] \<and>
    (flags_agree (gate_store g) \<or>
     isWritable (gate_store (gate_run g evs)) \<noteq> isWritable (gate_store g)) \<longrightarrow>
      flags_agree (gate_store (gate_run g evs)))"
  using gate_settled_agree [of g evs] gate_resolve_sets_flags [of i g r]
  by (simp add: gate_run_def gate_run_isWritable del: gate_step.simps)

text \<open>
  Two schedules from a joined participant who may not write. In the first the request of
  \<open>Call True\<close> resolves while that of \<open>Call False\<close> is in flight: the store holds
  \<open>False\<close> and device input is enabled. In the second both requests resolve, the later one
  first: nothing is in flight any more, the store holds \<open>False\<close>, and device input stays
  enabled.
\<close>

theorem updateWritable_overlap_counterexample:
  "isWritable (gate_store (gate_run \<lparr>gate_store = example_joined False, inflight = []\<rparr>
       [Call True, Call False, Resolve 0])) = False \<and>
   map_option disableDeviceInputs (room (gate_store (gate_run \<lparr>gate_store = example_joined False, inflight = []\<rparr>
       [Call True, Call False, Resolve 0]))) = Some False \<and>
   \<not> flags_agree (gate_store (gate_run \<lparr>gate_store = example_joined False, inflight = []\<rparr>
       [Call True, Call False, Resolve 0])) \<and>
   inflight (gate_run \<lparr>gate_store = example_joined False, inflight = []\<rparr>
       [Call True, Call False, Resolve 1, Resolve 0]) = [] \<and>
   isWritable (gate_store (gate_run \<lparr>gate_store = example_joined False, inflight = []\<rparr>
       [Call True, Call False, Resolve 1, Resolve 0])) = False \<and>
   map_option disableDeviceInputs (room (gate_store (gate_run \<lparr>gate_store = example_joined False, inflight = []\<rparr>
       [Call True, Call False, Resolve 1, Resolve 0]))) = Some False \<and>
   \<not> flags_agree (gate_store (gate_run \<lparr>gate_store = example_joined False, inflight = []\<rparr>
       [Call True, Call False, Resolve 1, Resolve 0]))"
  by (simp add: gate_run_def example_joined_eq updateWritable_call_def updateWritable_resume_def
      remove_nth_def flags_agree_def)

theorem updateWritable_schedules_witness:
  "flags_agree (example_joined False) \<and>
   room (example_joined False) = Some (example_room\<lparr>disableDeviceInputs := True\<rparr>) \<and>
   last_call [Call True, Resolve 0, Call False, Call True, Resolve 0, Resolve 0] = Some True \<and>
   isWritable (gate_store (gate_run \<lparr>gate_store = example_joined False, inflight = []\<rparr>
       [Call True, Resolve 0, Call False, Call True, Resolve 0, Resolve 0])) = True \<and>
   room (gate_store (gate_step \<lparr>gate_store = example_joined False, inflight = [True]\<rparr> (Resolve 0))) =
     Some (example_room\<lparr>disableDeviceInputs := False, disableSerialization := False\<rparr>) \<and>
   in_issue_order [Call True, Resolve 0, Call False, Call True, Resolve 0, Resolve 0] \<and>
   inflight (gate_run \<lparr>gate_store = example_joined False, inflight = []\<rparr>
       [Call True, Resolve 0, Call False, Call True, Resolve 0, Resolve 0]) = [] \<and>
   flags_agree (gate_store (gate_run \<lparr>gate_store = example_joined False, inflight = []\<rparr>
       [Call True, Resolve 0, Call False, Call True, Resolve 0, Resolve 0]))"
  using updateWritable_schedules [of "[Call True, Resolve 0, Call False, Call True, Resolve 0, Resolve 0]"
      True "\<lparr>gate_store = example_joined False, inflight = []\<rparr>"]
    updateWritable_schedules [of "[]" True "\<lparr>gate_store = example_joined False, inflight = [True]\<rparr>" 0
      "example_room\<lparr>disableDeviceInputs := True\<rparr>"]
  by (simp add: gate_run_def example_joined_eq updateWritable_call_def updateWritable_resume_def
      remove_nth_def flags_agree_def)

text \<open>
  C3. When \<^verbatim>\<open>updateWritable next\<close> is called with \<open>next\<close> different from the stored value
  and the request it sends to the session engine fails, the call fails with the engine's
  error and the store keeps \<open>next\<close>: nothing is rolled back, and nothing else in the store
  changes.
\<close>

theorem updateWritable_failure_keeps_next:
  assumes "isWritable s \<noteq> next" and "room s \<noteq> None"
  shows "updateWritable next (Rejects e) s = (Inl e, s\<lparr>isWritable := next\<rparr>, [RoomSetWritable next])"
  using assms by (simp add: updateWritable_def updateWritable_call_def)

theorem updateWritable_failure_keeps_next_witness:
  "isWritable (example_joined False) \<noteq> True \<and> room (example_joined False) \<noteq> None \<and>
   updateWritable True (Rejects (Failure ''refused'')) (example_joined False) =
     (Inl (Failure ''refused''), (example_joined False)\<lparr>isWritable := True\<rparr>, [RoomSetWritable True])"
  using updateWritable_failure_keeps_next [of "example_joined False" True "Failure ''refused''"]
  by (simp add: example_joined_eq)

text \<open>
  C4. Calling \<^verbatim>\<open>updateWritable\<close> with the value the store already holds sends no request to
  the session engine and leaves the whole store, the session's flags included, as it was,
  whatever the store and whatever the engine would have answered.
\<close>

theorem updateWritable_same_value_noop:
  "updateWritable (isWritable s) engine s = (Inr (), s, [])"
  by (simp add: updateWritable_def updateWritable_call_def)

section \<open>Document sources\<close>

text \<open>
  C5. Take a scene list in which the first scene whose source matches the pattern has the
  source \<^verbatim>\<open>pptx://cdn.example.com/prefix/dynamicConvert/TASK123/1.slide\<close>. Then
  \<^verbatim>\<open>makeSlideParams\<close> extracts the task identifier \<^verbatim>\<open>TASK123\<close> and the base URL
  \<^verbatim>\<open>https://cdn.example.com/prefix/dynamicConvert\<close>, the window asked for is of the slide
  kind with these two attributes, and with a window manager attached that is the request
  \<^verbatim>\<open>openDocsFileInWindowManager\<close> makes. In a scene list where no scene's source matches, the
  window asked for is the document viewer with the scene list as it was given.
\<close>

theorem document_source_parsing:
  "((\<forall>x\<in>set pre. \<not> scene_matches x) \<and> ppt sc = Some p \<and>
    src p = ''pptx://cdn.example.com/prefix/dynamicConvert/TASK123/1.slide'' \<longrightarrow>
      taskId (makeSlideParams (pre @ sc # post)) = ''TASK123'' \<and>
      url (makeSlideParams (pre @ sc # post)) = ''https://cdn.example.com/prefix/dynamicConvert'' \<and>
      docsAppParams scenePath title (pre @ sc # post) =
        \<lparr>kind = Slide, options_scenePath = Some scenePath, options_title = title,
         options_scenes = Some (map without_ppt (pre @ [sc])),
         attributes_taskId = Some ''TASK123'',
         attributes_url = Some ''https://cdn.example.com/prefix/dynamicConvert'',
         attributes_src = None\<rparr>) \<and>
   ((\<forall>x\<in>set scenes. \<not> scene_matches x) \<longrightarrow>
      docsAppParams scenePath title scenes =
        \<lparr>kind = DocsViewer, options_scenePath = Some scenePath, options_title = title,
         options_scenes = Some scenes,
         attributes_taskId = None, attributes_url = None, attributes_src = None\<rparr>) \<and>
   (windowManager s \<noteq> None \<longrightarrow>
      snd (snd (openDocsFileInWindowManager scenePath title scenes answer s)) =
        WmAddApp (docsAppParams scenePath title scenes) #
        (case answer of Resolves u \<Rightarrow> [] | Rejects err \<Rightarrow> [ConsoleLog err]))"
  using makeSlideParams_example [of pre sc p post] makeSlideParams_no_match [of scenes]
  by (auto simp: openDocsFileInWindowManager_def docsAppParams_def split: outcome.splits)

theorem document_source_parsing_witness:
  "\<not> scene_matches \<lparr>name = Some ''cover'', ppt = Some \<lparr>src = ''https://cdn.example.com/cover.png'', width = 1280, height = 720\<rparr>\<rparr> \<and>
   docsAppParams ''/deck'' ''Deck''
     ([\<lparr>name = Some ''cover'', ppt = Some \<lparr>src = ''https://cdn.example.com/cover.png'', width = 1280, height = 720\<rparr>\<rparr>] @
      \<lparr>name = Some ''1'', ppt = Some \<lparr>src = ''pptx://cdn.example.com/prefix/dynamicConvert/TASK123/1.slide'', width = 1280, height = 720\<rparr>\<rparr> #
      [\<lparr>name = Some ''2'', ppt = Some \<lparr>src = ''pptx://cdn.example.com/prefix/dynamicConvert/TASK123/2.slide'', width = 1280, height = 720\<rparr>\<rparr>]) =
     \<lparr>kind = Slide, options_scenePath = Some ''/deck'', options_title = ''Deck'',
      options_scenes = Some [\<lparr>name = Some ''cover'', ppt = None\<rparr>, \<lparr>name = Some ''1'', ppt = None\<rparr>],
      attributes_taskId = Some ''TASK123'',
      attributes_url = Some ''https://cdn.example.com/prefix/dynamicConvert'',
      attributes_src = None\<rparr> \<and>
   docsAppParams ''/deck'' ''Deck''
     [\<lparr>name = Some ''cover'', ppt = Some \<lparr>src = ''https://cdn.example.com/cover.png'', width = 1280, height = 720\<rparr>\<rparr>] =
     \<lparr>kind = DocsViewer, options_scenePath = Some ''/deck'', options_title = ''Deck'',
      options_scenes = Some [\<lparr>name = Some ''cover'', ppt = Some \<lparr>src = ''https://cdn.example.com/cover.png'', width = 1280, height = 720\<rparr>\<rparr>],
      attributes_taskId = None, attributes_url = None, attributes_src = None\<rparr> \<and>
   windowManager (example_joined True) \<noteq> None \<and>
   snd (snd (openDocsFileInWindowManager ''/deck'' ''Deck''
     [\<lparr>name = Some ''cover'', ppt = Some \<lparr>src = ''https://cdn.example.com/cover.png'', width = 1280, height = 720\<rparr>\<rparr>]
     (Resolves ()) (example_joined True))) =
     [WmAddApp (docsAppParams ''/deck'' ''Deck''
        [\<lparr>name = Some ''cover'', ppt = Some \<lparr>src = ''https://cdn.example.com/cover.png'', width = 1280, height = 720\<rparr>\<rparr>])]"
  using document_source_parsing
    [of "[\<lparr>name = Some ''cover'', ppt = Some \<lparr>src = ''https://cdn.example.com/cover.png'', width = 1280, height = 720\<rparr>\<rparr>]"
        "\<lparr>name = Some ''1'', ppt = Some \<lparr>src = ''pptx://cdn.example.com/prefix/dynamicConvert/TASK123/1.slide'', width = 1280, height = 720\<rparr>\<rparr>"
        "\<lparr>src = ''pptx://cdn.example.com/prefix/dynamicConvert/TASK123/1.slide'', width = 1280, height = 720\<rparr>"
        "[\<lparr>name = Some ''2'', ppt = Some \<lparr>src = ''pptx://cdn.example.com/prefix/dynamicConvert/TASK123/2.slide'', width = 1280, height = 720\<rparr>\<rparr>]"
        "''/deck''" "''Deck''"
        "[\<lparr>name = Some ''cover'', ppt = Some \<lparr>src = ''https://cdn.example.com/cover.png'', width = 1280, height = 720\<rparr>\<rparr>]"
        "example_joined True" "Resolves ()"]
  by (simp add: scene_matches_def pptSrcRE_exec_def without_ppt_def example_joined_eq)

section \<open>The debounced preload\<close>

text \<open>
  C6. Two calls of the debounced preload, the second less than the wait after the first,
  execute exactly one preload, with the argument of the second call, once the wait has
  passed after the second call, and none before. A call followed by a cancel less than
  the wait later executes no preload, however long one waits; \<^verbatim>\<open>onDisconnectWithError\<close> is
  such a cancel, after which no preload is left to execute.
\<close>

theorem debounced_preload:
  "(nothing_due t1 s \<and> t1 \<le> t2 \<and> t2 < t1 + debounce_wait \<and> t2 + debounce_wait \<le> t3 \<longrightarrow>
      snd (preload_run s [PreloadAt a1 t1, PreloadAt a2 t2, ClockAt t3]) = [PreloaderPreload a2] \<and>
      preloadPPTResource (fst (preload_run s [PreloadAt a1 t1, PreloadAt a2 t2, ClockAt t3])) = None) \<and>
   (nothing_due t1 s \<and> t1 \<le> t2 \<and> t2 < t1 + debounce_wait \<and> t3 < t2 + debounce_wait \<longrightarrow>
      snd (preload_run s [PreloadAt a1 t1, PreloadAt a2 t2, ClockAt t3]) = []) \<and>
   (nothing_due t1 s \<and> t1 \<le> tc \<and> tc < t1 + debounce_wait \<longrightarrow>
      snd (preload_run s [PreloadAt a1 t1, CancelAt tc, ClockAt t3]) = [] \<and>
      preloadPPTResource (fst (preload_run s [PreloadAt a1 t1, CancelAt tc, ClockAt t3])) = None) \<and>
   snd (preloadPPTResource_elapse t3 (fst (onDisconnectWithError err s))) = []"
  by (auto simp: preload_run_def nothing_due_def preloadPPTResource_elapse_def
      preloadPPTResource_call_def preloadPPTResource_cancel_def onDisconnectWithError_def
      split: option.splits)

theorem debounced_preload_witness:
  "nothing_due 100 (example_joined True) \<and> (100::nat) \<le> 1500 \<and> 1500 < 100 + debounce_wait \<and>
   1500 + debounce_wait \<le> 3500 \<and>
   snd (preload_run (example_joined True) [PreloadAt ''pptx://a'' 100, PreloadAt ''pptx://b'' 1500, ClockAt 3500]) =
     [PreloaderPreload ''pptx://b''] \<and>
   snd (preload_run (example_joined True) [PreloadAt ''pptx://a'' 100, PreloadAt ''pptx://b'' 1500, ClockAt 3499]) = [] \<and>
   snd (preload_run (example_joined True) [PreloadAt ''pptx://a'' 100, CancelAt 1500, ClockAt 9000]) = []"
  using debounced_preload [of 100 "example_joined True" 1500 3500 "''pptx://a''" "''pptx://b''" 1500]
    debounced_preload [of 100 "example_joined True" 1500 3499 "''pptx://a''" "''pptx://b''" 1500]
    debounced_preload [of 100 "example_joined True" 1500 9000 "''pptx://a''" "''pptx://b''" 1500]
  by (simp add: nothing_due_def debounce_wait_def example_joined_eq)

section \<open>Kick notifications\<close>

text \<open>
  C7. A kick notification whose reason is \<^verbatim>\<open>kickByAdmin\<close>, \<^verbatim>\<open>roomDelete\<close> or \<^verbatim>\<open>roomBan\<close> sets
  \<^verbatim>\<open>isKicked\<close> when the participant is not the room's creator, and leaves the store of the
  creator as it was, so that a creator's flag stays false. A notification with any other
  reason changes nothing.
\<close>

theorem onKickedWithReason_sets_flag:
  "(reason \<in> {''kickByAdmin'', ''roomDelete'', ''roomBan''} \<and> \<not> isCreator s
      \<longrightarrow> isKicked (onKickedWithReason reason s)) \<and>
   (reason \<in> {''kickByAdmin'', ''roomDelete'', ''roomBan''} \<and> isCreator s
      \<longrightarrow> onKickedWithReason reason s = s) \<and>
   (reason \<notin> {''kickByAdmin'', ''roomDelete'', ''roomBan''}
      \<longrightarrow> onKickedWithReason reason s = s)"
  by (simp add: onKickedWithReason_def)

theorem onKickedWithReason_sets_flag_witness:
  "isKicked (onKickedWithReason ''kickByAdmin'' (example_joined False)) \<and>
   \<not> isKicked (onKickedWithReason ''kickByAdmin'' (example_joined True)) \<and>
   \<not> isKicked (onKickedWithReason ''left'' (example_joined False))"
  using onKickedWithReason_sets_flag [of "''kickByAdmin''" "example_joined False"]
    onKickedWithReason_sets_flag [of "''kickByAdmin''" "example_joined True"]
    onKickedWithReason_sets_flag [of "''left''" "example_joined False"]
  by (simp add: example_joined_eq)

section \<open>Scene navigation\<close>




section \<open>Joining\<close>

text \<open>
  C9. When the user identity is absent, or the room identifier or the room token is
  absent (null, undefined or the empty string, which is what \<^verbatim>\<open>!x\<close> tests),
  \<^verbatim>\<open>joinWhiteboardRoom\<close> fails with the error for the missing identity, or else with the
  error for the missing room credentials, without having constructed the SDK or sent
  anything, and the store is as it was.
\<close>

theorem joinWhiteboardRoom_missing_configuration:
  "(falsy (userUUID gs) \<longrightarrow>
      joinWhiteboardRoom gs env answer s = (Inl (Error ''Missing userUUID''), s, [])) \<and>
   (\<not> falsy (userUUID gs) \<and> (falsy (whiteboardRoomUUID gs) \<or> falsy (whiteboardRoomToken gs)) \<longrightarrow>
      joinWhiteboardRoom gs env answer s = (Inl (Error ''Missing Whiteboard UUID and Token''), s, []))"
  by (simp add: joinWhiteboardRoom_def)

theorem joinWhiteboardRoom_missing_configuration_witness:
  "falsy (userUUID (example_globalStore\<lparr>userUUID := None\<rparr>)) \<and>
   joinWhiteboardRoom (example_globalStore\<lparr>userUUID := None\<rparr>) example_environment
       (Resolves example_room) (constructor True) =
     (Inl (Error ''Missing userUUID''), constructor True, []) \<and>
   \<not> falsy (userUUID (example_globalStore\<lparr>whiteboardRoomToken := None\<rparr>)) \<and>
   falsy (whiteboardRoomToken (example_globalStore\<lparr>whiteboardRoomToken := None\<rparr>)) \<and>
   joinWhiteboardRoom (example_globalStore\<lparr>whiteboardRoomToken := None\<rparr>) example_environment
       (Resolves example_room) (constructor True) =
     (Inl (Error ''Missing Whiteboard UUID and Token''), constructor True, []) \<and>
   falsy (whiteboardRoomUUID (example_globalStore\<lparr>whiteboardRoomUUID := Some []\<rparr>)) \<and>
   joinWhiteboardRoom (example_globalStore\<lparr>whiteboardRoomUUID := Some []\<rparr>) example_environment
       (Resolves example_room) (constructor True) =
     (Inl (Error ''Missing Whiteboard UUID and Token''), constructor True, [])"
  using joinWhiteboardRoom_missing_configuration
      [of "example_globalStore\<lparr>userUUID := None\<rparr>" example_environment "Resolves example_room" "constructor True"]
    joinWhiteboardRoom_missing_configuration
      [of "example_globalStore\<lparr>whiteboardRoomToken := None\<rparr>" example_environment "Resolves example_room" "constructor True"]
    joinWhiteboardRoom_missing_configuration
      [of "example_globalStore\<lparr>whiteboardRoomUUID := Some []\<rparr>" example_environment "Resolves example_room" "constructor True"]
  by (simp add: falsy_def example_globalStore_def)

section \<open>Failures of the window manager\<close>

text \<open>
  C10. Whatever the arguments and whatever the window manager answers,
  \<^verbatim>\<open>openDocsFileInWindowManager\<close> and \<^verbatim>\<open>openMediaFileInWindowManager\<close> return normally and
  leave the store as it was; when the window manager fails, the only thing that follows
  the request is the logging of the error.
\<close>

theorem open_content_never_fails:
  "fst (openDocsFileInWindowManager scenePath title scenes answer s) = Inr () \<and>
   fst (snd (openDocsFileInWindowManager scenePath title scenes answer s)) = s \<and>
   fst (openMediaFileInWindowManager resourceSrc title answer s) = Inr () \<and>
   fst (snd (openMediaFileInWindowManager resourceSrc title answer s)) = s \<and>
   (windowManager s \<noteq> None \<and> answer = Rejects err \<longrightarrow>
      snd (snd (openDocsFileInWindowManager scenePath title scenes answer s)) =
        [WmAddApp (docsAppParams scenePath title scenes), ConsoleLog err] \<and>
      snd (snd (openMediaFileInWindowManager resourceSrc title answer s)) =
        [WmAddApp (mediaAppParams resourceSrc title), ConsoleLog err])"
  by (auto simp: openDocsFileInWindowManager_def openMediaFileInWindowManager_def
      split: option.splits outcome.splits)

theorem open_content_never_fails_witness:
  "windowManager (example_joined True) \<noteq> None \<and>
   openDocsFileInWindowManager ''/deck'' ''Lesson'' [] (Rejects (Failure ''no space'')) (example_joined True) =
     (Inr (), example_joined True,
      [WmAddApp (docsAppParams ''/deck'' ''Lesson'' []), ConsoleLog (Failure ''no space'')]) \<and>
   openMediaFileInWindowManager ''https://cdn.example.com/a.mp4'' ''Lesson'' (Rejects (Failure ''no space''))
       (example_joined True) =
     (Inr (), example_joined True,
      [WmAddApp (mediaAppParams ''https://cdn.example.com/a.mp4'' ''Lesson''), ConsoleLog (Failure ''no space'')])"
  using open_content_never_fails [of "''/deck''" "''Lesson''" "[]" "Rejects (Failure ''no space'')"
      "example_joined True" "''https://cdn.example.com/a.mp4''" "Failure ''no space''"]
  by (simp add: example_joined_eq prod_eq_iff)

end
